theory Spec2Isabelle
  imports Main "HOL-Library.Word" "HOL-Library.Signed_Division"
begin

chapter \<open>The santos10 power HAL and display-mode control\<close>

text \<open>
  Two shims are embedded here: the C power HAL of \<^verbatim>\<open>power/power.c\<close> and the Java
  class \<^verbatim>\<open>DisplayModeControl\<close>. Each source function becomes a HOL function of the same
  name; the kernel's virtual files, the monotonic clock and the process-wide variable
  \<^verbatim>\<open>current_power_profile\<close> become explicit state.
\<close>

section \<open>Power HAL: data\<close>

subsection \<open>Decimal formatting\<close>

text \<open>
  \<^verbatim>\<open>snprintf(buf, 80, "%d", value)\<close> and Java's \<^verbatim>\<open>String.valueOf(int)\<close> both print a
  machine integer in decimal, with a leading minus sign for a negative value. No
  32-bit value needs more than eleven characters, so the 80-byte buffer never truncates.
\<close>

definition digit_char :: "nat \<Rightarrow> char" where
  "digit_char d = ''0123456789'' ! d"

fun dec_nat :: "nat \<Rightarrow> string" where
  "dec_nat n = (if n < 10 then [digit_char n] else dec_nat (n div 10) @ [digit_char (n mod 10)])"

declare dec_nat.simps [simp del]

definition snprintf_d :: "int \<Rightarrow> string" where
  "snprintf_d v = (if v < 0 then CHR ''-'' # dec_nat (nat (- v)) else dec_nat (nat v))"

subsection \<open>The kernel's files as seen by the HAL\<close>

text \<open>
  \<^verbatim>\<open>stat\<close> either fails or reports what kind of file a path names; \<^verbatim>\<open>open(O_WRONLY)\<close>
  followed by \<^verbatim>\<open>write\<close> either cannot open the node, opens it and has the write
  refused, or writes the bytes; \<^verbatim>\<open>open(O_RDONLY)\<close> followed by \<^verbatim>\<open>read\<close> either fails or
  yields the bytes of the node. \<open>issued\<close> records every call of \<^verbatim>\<open>sysfs_write\<close> in order,
  oldest first, whatever its outcome: the HAL itself never looks at the outcome.
\<close>

datatype st_mode = S_IFDIR | S_IFREG

datatype wr_node = OpenFails | WriteFails | WriteOk

record sysfs =
  stat :: "string \<Rightarrow> st_mode option"
  wr :: "string \<Rightarrow> wr_node"
  rd :: "string \<Rightarrow> string option"
  issued :: "(string \<times> string) list"

definition BOOST_PULSE_SYSFS :: string where
  "BOOST_PULSE_SYSFS = ''/sys/devices/system/cpu/cpufreq/interactive/boostpulse''"

definition BOOST_FREQ_SYSFS :: string where
  "BOOST_FREQ_SYSFS = ''/sys/devices/system/cpu/cpufreq/interactive/hispeed_freq''"

definition BOOST_DURATION_SYSFS :: string where
  "BOOST_DURATION_SYSFS = ''/sys/devices/system/cpu/cpufreq/interactive/boostpulse_duration''"

definition CPUFREQ_PATH :: string where
  "CPUFREQ_PATH = ''/sys/devices/system/cpu/cpu0/cpufreq/''"

definition INTERACTIVE_PATH :: string where
  "INTERACTIVE_PATH = ''/sys/devices/system/cpu/cpufreq/interactive/''"

text \<open>
  \<^verbatim>\<open>sysfs_write\<close> returns \<open>-1\<close> when the node cannot be opened, the (negative) result of
  \<^verbatim>\<open>write\<close> when the write is refused, and the number of bytes otherwise.
\<close>

definition sysfs_write :: "string \<Rightarrow> string \<Rightarrow> sysfs \<Rightarrow> int \<times> sysfs" where
  "sysfs_write path s fs =
     (let fs' = fs\<lparr>issued := issued fs @ [(path, s)]\<rparr>
      in case wr fs path of
           OpenFails \<Rightarrow> (- 1, fs')
         | WriteFails \<Rightarrow> (- 1, fs')
         | WriteOk \<Rightarrow> (int (length s), fs'))"

definition sysfs_write_int :: "string \<Rightarrow> int \<Rightarrow> sysfs \<Rightarrow> int \<times> sysfs" where
  "sysfs_write_int path v fs = sysfs_write path (snprintf_d v) fs"

text \<open>
  \<^verbatim>\<open>sysfs_read\<close> reads at most \<open>num_bytes - 1\<close> bytes and drops one trailing newline.
  \<open>None\<close> stands for the negative return value.
\<close>

definition sysfs_read :: "string \<Rightarrow> nat \<Rightarrow> sysfs \<Rightarrow> string option" where
  "sysfs_read path num_bytes fs =
     (case rd fs path of
        None \<Rightarrow> None
      | Some bytes \<Rightarrow>
          (let s = take (num_bytes - 1) bytes
           in if 1 \<le> length s \<and> last s = CHR 0x0A then Some (butlast s) else Some s))"

definition check_governor :: "sysfs \<Rightarrow> bool" where
  "check_governor fs =
     (case stat fs INTERACTIVE_PATH of
        None \<Rightarrow> False
      | Some m \<Rightarrow> (if m = S_IFDIR then True else False))"

subsection \<open>Monotonic time\<close>

text \<open>
  \<^verbatim>\<open>struct timespec\<close> comes from the C library: \<^verbatim>\<open>tv_sec\<close> and \<^verbatim>\<open>tv_nsec\<close> are of type
  \<^verbatim>\<open>long\<close>, whose width \<open>'l\<close> depends on the target (32 bits on the x86 tablets this tree
  is for, 64 bits on an LP64 target). The arithmetic wraps at that width. The record
  leaves the field type open; the HAL uses it at \<open>'l word\<close>.
\<close>

record 'a timespec =
  tv_sec :: 'a
  tv_nsec :: 'a

definition timespec_sub :: "'l::len word timespec \<Rightarrow> 'l word timespec \<Rightarrow> 'l word timespec" where
  "timespec_sub a b =
     (if sint (tv_sec b) \<le> sint (tv_sec a)
      then \<lparr>tv_sec = tv_sec a - tv_sec b, tv_nsec = tv_nsec a - tv_nsec b\<rparr>
      else \<lparr>tv_sec = tv_sec a - tv_sec b - 1,
            tv_nsec = 1000000000 - tv_nsec b + tv_nsec a\<rparr>)"

text \<open>C's \<^verbatim>\<open>/\<close> on \<^verbatim>\<open>long\<close> truncates towards zero.\<close>

definition long_div :: "'l::len word \<Rightarrow> 'l word \<Rightarrow> 'l word" where
  "long_div x y = word_of_int (sint x sdiv sint y)"

text \<open>
  The sum is computed in \<^verbatim>\<open>long\<close> and then converted to \<^verbatim>\<open>uint64_t\<close>, which extends the
  sign of a narrower \<^verbatim>\<open>long\<close>.
\<close>

definition timespec_to_us :: "'l::len word timespec \<Rightarrow> 64 word" where
  "timespec_to_us t = scast (tv_sec t * 1000000 + long_div (tv_nsec t) 1000)"

subsection \<open>Profiles and the module's state\<close>

text \<open>
  The fields of a profile as \<^verbatim>\<open>set_power_profile\<close> reads them. The integer fields are
  only tested against zero and printed, never computed with, so they are plain integers.
\<close>

record power_profile =
  boost :: int
  boostpulse_duration :: int
  go_hispeed_load :: int
  hispeed_freq :: int
  io_is_busy :: int
  target_loads :: string
  scaling_min_freq :: int
  scaling_max_freq :: int

text \<open>
  Modelled from the spec: \<^verbatim>\<open>power.h\<close>, which declares the table \<^verbatim>\<open>profiles\<close> and the
  constant \<^verbatim>\<open>PROFILE_MAX\<close>, is missing. The table is a parameter of every function that
  uses it, and, the table being "indexed by profile id 0..PROFILE_MAX-1",
  \<^verbatim>\<open>PROFILE_MAX\<close> is its number of entries.
\<close>

definition PROFILE_MAX :: "power_profile list \<Rightarrow> int" where
  "PROFILE_MAX profiles = int (length profiles)"

text \<open>
  \<^verbatim>\<open>profiles[i]\<close>: C does not check the index, and a read outside the table is undefined
  behaviour. The model makes it a fault, so that a function which could index outside
  the table has a run that returns the fault.
\<close>

datatype fault = OutOfBounds

definition profile_at :: "power_profile list \<Rightarrow> int \<Rightarrow> fault + power_profile" where
  "profile_at profiles i =
     (if 0 \<le> i \<and> i < int (length profiles) then Inr (profiles ! nat i) else Inl OutOfBounds)"

text \<open>
  \<^verbatim>\<open>struct intel_power_module\<close> (without the HAL's constant header), the static
  \<^verbatim>\<open>current_power_profile\<close>, and the kernel's files. Calls are taken one at a time: the
  mutex that the source holds around \<^verbatim>\<open>set_power_profile\<close> has no counterpart here.
\<close>

record 't power_hal =
  pulse_duration :: "32 word"
  last_boost_time :: "'t timespec"
  current_power_profile :: int
  kfs :: sysfs

section \<open>Power HAL: operations\<close>

definition is_profile_valid :: "power_profile list \<Rightarrow> int \<Rightarrow> bool" where
  "is_profile_valid profiles profile \<longleftrightarrow> profile \<ge> 0 \<and> profile < PROFILE_MAX profiles"

text \<open>The eight writes of \<^verbatim>\<open>set_power_profile\<close>, in the order of the source.\<close>

definition write_profile :: "power_profile \<Rightarrow> sysfs \<Rightarrow> sysfs" where
  "write_profile p fs0 =
     (let fs1 = snd (sysfs_write_int (INTERACTIVE_PATH @ ''boost'') (boost p) fs0);
          fs2 = snd (sysfs_write_int (INTERACTIVE_PATH @ ''boostpulse_duration'')
                       (boostpulse_duration p) fs1);
          fs3 = snd (sysfs_write_int (INTERACTIVE_PATH @ ''go_hispeed_load'')
                       (go_hispeed_load p) fs2);
          fs4 = snd (sysfs_write_int (INTERACTIVE_PATH @ ''hispeed_freq'') (hispeed_freq p) fs3);
          fs5 = snd (sysfs_write_int (INTERACTIVE_PATH @ ''io_is_busy'') (io_is_busy p) fs4);
          fs6 = snd (sysfs_write (INTERACTIVE_PATH @ ''target_loads'') (target_loads p) fs5);
          fs7 = snd (sysfs_write_int (CPUFREQ_PATH @ ''scaling_min_freq'')
                       (scaling_min_freq p) fs6);
          fs8 = snd (sysfs_write_int (CPUFREQ_PATH @ ''scaling_max_freq'')
                       (scaling_max_freq p) fs7)
      in fs8)"

definition set_power_profile ::
  "power_profile list \<Rightarrow> int \<Rightarrow> 't power_hal \<Rightarrow> fault + 't power_hal" where
  "set_power_profile profiles profile s =
     (if \<not> is_profile_valid profiles profile then Inr s
      else if profile = current_power_profile s then Inr s
      else if \<not> check_governor (kfs s) then Inr s
      else case profile_at profiles profile of
             Inl e \<Rightarrow> Inl e
           | Inr p \<Rightarrow> Inr (s\<lparr>kfs := write_profile p (kfs s), current_power_profile := profile\<rparr>))"

text \<open>
  The hints of \<^verbatim>\<open>hardware/power.h\<close>. Only \<^verbatim>\<open>POWER_HINT_SET_PROFILE\<close> reads its \<^verbatim>\<open>data\<close>
  argument, as a pointer to an \<^verbatim>\<open>int32_t\<close>; the hint carries the integer read there.
  \<^verbatim>\<open>POWER_HINT_OTHER\<close> stands for every hint the \<^verbatim>\<open>switch\<close> sends to \<^verbatim>\<open>default\<close>.
\<close>

datatype power_hint =
    POWER_HINT_INTERACTION
  | POWER_HINT_CPU_BOOST
  | POWER_HINT_LAUNCH_BOOST
  | POWER_HINT_SET_PROFILE int
  | POWER_HINT_VSYNC
  | POWER_HINT_OTHER

text \<open>
  The body shared by the three boost hints. \<open>curr_time\<close> is what
  \<^verbatim>\<open>clock_gettime(CLOCK_MONOTONIC)\<close> returns during the call.
\<close>

definition boost_hint ::
  "power_profile list \<Rightarrow> 'l::len word timespec \<Rightarrow> 'l word power_hal \<Rightarrow> fault + 'l word power_hal" where
  "boost_hint profiles curr_time s =
     (if \<not> is_profile_valid profiles (current_power_profile s) then Inr s
      else case profile_at profiles (current_power_profile s) of
             Inl e \<Rightarrow> Inl e
           | Inr p \<Rightarrow>
               if boostpulse_duration p = 0 then Inr s
               else if \<not> check_governor (kfs s) then Inr s
               else
                 (let diff_time = timespec_sub curr_time (last_boost_time s);
                      diff = timespec_to_us diff_time
                  in if diff > ucast (pulse_duration s)
                     then Inr (s\<lparr>kfs := snd (sysfs_write BOOST_PULSE_SYSFS ''1'' (kfs s)),
                                 last_boost_time := curr_time\<rparr>)
                     else Inr s))"

fun fugu_power_hint ::
  "power_profile list \<Rightarrow> 'l::len word timespec \<Rightarrow> power_hint \<Rightarrow> 'l word power_hal
     \<Rightarrow> fault + 'l word power_hal" where
  "fugu_power_hint profiles curr_time POWER_HINT_INTERACTION s = boost_hint profiles curr_time s"
| "fugu_power_hint profiles curr_time POWER_HINT_CPU_BOOST s = boost_hint profiles curr_time s"
| "fugu_power_hint profiles curr_time POWER_HINT_LAUNCH_BOOST s = boost_hint profiles curr_time s"
| "fugu_power_hint profiles curr_time (POWER_HINT_SET_PROFILE d) s = set_power_profile profiles d s"
| "fugu_power_hint profiles curr_time POWER_HINT_VSYNC s = Inr s"
| "fugu_power_hint profiles curr_time POWER_HINT_OTHER s = Inr s"

text \<open>
  \<^verbatim>\<open>fugu_power_init\<close>. The C library's \<^verbatim>\<open>atoi\<close> is a parameter. The boost frequency is
  read for the log message only.
\<close>

definition fugu_power_init ::
  "(string \<Rightarrow> int) \<Rightarrow> 'l::len word timespec \<Rightarrow> 'l word power_hal \<Rightarrow> 'l word power_hal" where
  "fugu_power_init atoi curr_time s =
     (let boost_freq = (case sysfs_read BOOST_FREQ_SYSFS 32 (kfs s) of
                          None \<Rightarrow> ''?'' | Some str \<Rightarrow> str);
          boostpulse_duration = (case sysfs_read BOOST_DURATION_SYSFS 32 (kfs s) of
                                   None \<Rightarrow> snprintf_d 20000 | Some str \<Rightarrow> str)
      in s\<lparr>pulse_duration := word_of_int (atoi boostpulse_duration),
           last_boost_time := curr_time\<rparr>)"

definition fugu_power_set_interactive :: "int \<Rightarrow> 't power_hal \<Rightarrow> 't power_hal" where
  "fugu_power_set_interactive on s = s"

datatype feature_t = POWER_FEATURE_SUPPORTED_PROFILES | POWER_FEATURE_OTHER

definition get_feature :: "power_profile list \<Rightarrow> feature_t \<Rightarrow> int" where
  "get_feature profiles feature =
     (if feature = POWER_FEATURE_SUPPORTED_PROFILES then PROFILE_MAX profiles else - 1)"

text \<open>
  The HAL's method table \<^verbatim>\<open>HAL_MODULE_INFO_SYM\<close> has four entries; a call of the HAL is a
  call of one of them. \<open>hal_call\<close> gives the state after the call, \<open>hal_run\<close> the state after
  a sequence of calls, stopping at the first fault.
\<close>

datatype 't hal_op =
    Init "'t timespec"
  | SetInteractive int
  | PowerHint "'t timespec" power_hint
  | GetFeature feature_t

fun hal_call ::
  "power_profile list \<Rightarrow> (string \<Rightarrow> int) \<Rightarrow> 'l::len word hal_op \<Rightarrow> 'l word power_hal
     \<Rightarrow> fault + 'l word power_hal" where
  "hal_call profiles atoi (Init t) s = Inr (fugu_power_init atoi t s)"
| "hal_call profiles atoi (SetInteractive on) s = Inr (fugu_power_set_interactive on s)"
| "hal_call profiles atoi (PowerHint t h) s = fugu_power_hint profiles t h s"
| "hal_call profiles atoi (GetFeature f) s = Inr s"

fun hal_run ::
  "power_profile list \<Rightarrow> (string \<Rightarrow> int) \<Rightarrow> 'l::len word hal_op list \<Rightarrow> 'l word power_hal
     \<Rightarrow> fault + 'l word power_hal" where
  "hal_run profiles atoi [] s = Inr s"
| "hal_run profiles atoi (c # cs) s =
     (case hal_call profiles atoi c s of
        Inl e \<Rightarrow> Inl e
      | Inr s' \<Rightarrow> hal_run profiles atoi cs s')"

section \<open>Display modes: data\<close>

text \<open>
  \<^verbatim>\<open>cyanogenmod.hardware.DisplayMode\<close> has the two fields \<^verbatim>\<open>id\<close> and \<^verbatim>\<open>name\<close>. A Java
  reference that may be \<^verbatim>\<open>null\<close> is an \<open>option\<close>.
\<close>

record DisplayMode =
  mode_id :: int
  mode_name :: string

definition MODE_PATH :: string where
  "MODE_PATH = ''/sys/class/mdnie/mdnie/mode''"

definition DEFAULT_PATH :: string where
  "DEFAULT_PATH = ''/data/misc/.displaymodedefault''"

definition DISPLAY_MODES :: "DisplayMode list" where
  "DISPLAY_MODES =
     [\<lparr>mode_id = 0, mode_name = ''Dynamic''\<rparr>,
      \<lparr>mode_id = 1, mode_name = ''Standard''\<rparr>,
      \<lparr>mode_id = 2, mode_name = ''Cinema''\<rparr>,
      \<lparr>mode_id = 3, mode_name = ''Auto''\<rparr>]"

text \<open>
  The exceptions of the Java runtime that this class can meet. A computation that may
  throw returns \<open>Inl\<close> of the exception.
\<close>

datatype java_exn = NumberFormatException | ArrayIndexOutOfBoundsException | NullPointerException

subsection \<open>The files as seen by the class\<close>

text \<open>
  Modelled from the spec: \<^verbatim>\<open>org.cyanogenmod.hardware.util.FileUtils\<close> is not part of this
  tree. Its two helpers "read a line back" and "write it to a known path" over the fake
  filesystem that the spec's testable properties assume: a file has a content or does not
  exist, and a path can or cannot be opened for reading and for writing. \<open>attempts\<close>
  records the calls of \<^verbatim>\<open>writeLine\<close> in order, oldest first, whatever their outcome.
\<close>

record files =
  content :: "string \<Rightarrow> string option"
  can_read :: "string \<Rightarrow> bool"
  can_write :: "string \<Rightarrow> bool"
  attempts :: "(string \<times> string) list"

text \<open>
  \<^verbatim>\<open>readOneLine\<close> gives the first line without its terminator, and \<^verbatim>\<open>null\<close> when the file
  cannot be opened or is empty.
\<close>

definition readOneLine :: "files \<Rightarrow> string \<Rightarrow> string option" where
  "readOneLine fs fileName =
     (case content fs fileName of
        None \<Rightarrow> None
      | Some bytes \<Rightarrow>
          if \<not> can_read fs fileName \<or> bytes = [] then None
          else Some (takeWhile (\<lambda>c. c \<noteq> CHR 0x0A \<and> c \<noteq> CHR 0x0D) bytes))"

text \<open>
  \<^verbatim>\<open>writeLine\<close> replaces the content of the file by the value, and returns \<^verbatim>\<open>false\<close>,
  leaving the file alone, when the file cannot be opened for writing.
\<close>

definition writeLine :: "string \<Rightarrow> string \<Rightarrow> files \<Rightarrow> bool \<times> files" where
  "writeLine fileName v fs =
     (let fs' = fs\<lparr>attempts := attempts fs @ [(fileName, v)]\<rparr>
      in if can_write fs fileName
         then (True, fs'\<lparr>content := (content fs)(fileName \<mapsto> v)\<rparr>)
         else (False, fs'))"

subsection \<open>The Java library\<close>

text \<open>
  \<^verbatim>\<open>Integer.parseInt\<close>: an optional sign followed by at least one decimal digit, the value
  within the range of a 32-bit \<^verbatim>\<open>int\<close>; anything else, \<^verbatim>\<open>null\<close> included, throws
  \<^verbatim>\<open>NumberFormatException\<close>. The line is taken as ASCII text.
\<close>

definition digit :: "char \<Rightarrow> nat option" where
  "digit c = (let n = (of_char c :: nat) in if 48 \<le> n \<and> n \<le> 57 then Some (n - 48) else None)"

fun parse_digits :: "nat \<Rightarrow> string \<Rightarrow> nat option" where
  "parse_digits acc [] = Some acc"
| "parse_digits acc (c # cs) =
     (case digit c of None \<Rightarrow> None | Some d \<Rightarrow> parse_digits (acc * 10 + d) cs)"

definition parseInt :: "string option \<Rightarrow> java_exn + int" where
  "parseInt s =
     (case s of
        None \<Rightarrow> Inl NumberFormatException
      | Some [] \<Rightarrow> Inl NumberFormatException
      | Some (c # cs) \<Rightarrow>
          if c = CHR ''-'' then
            (if cs = [] then Inl NumberFormatException
             else case parse_digits 0 cs of
                    None \<Rightarrow> Inl NumberFormatException
                  | Some n \<Rightarrow> if int n \<le> 2147483648 then Inr (- int n)
                              else Inl NumberFormatException)
          else if c = CHR ''+'' then
            (if cs = [] then Inl NumberFormatException
             else case parse_digits 0 cs of
                    None \<Rightarrow> Inl NumberFormatException
                  | Some n \<Rightarrow> if int n \<le> 2147483647 then Inr (int n)
                              else Inl NumberFormatException)
          else
            (case parse_digits 0 (c # cs) of
               None \<Rightarrow> Inl NumberFormatException
             | Some n \<Rightarrow> if int n \<le> 2147483647 then Inr (int n)
                         else Inl NumberFormatException))"

text \<open>\<^verbatim>\<open>String.valueOf(int)\<close> prints the decimal digits, as \<^verbatim>\<open>%d\<close> does.\<close>

definition valueOf :: "int \<Rightarrow> string" where
  "valueOf i = snprintf_d i"

text \<open>An array access checks its index.\<close>

definition array_get :: "'a list \<Rightarrow> int \<Rightarrow> java_exn + 'a" where
  "array_get xs i =
     (if 0 \<le> i \<and> i < int (length xs) then Inr (xs ! nat i)
      else Inl ArrayIndexOutOfBoundsException)"

section \<open>Display modes: operations\<close>

definition isFileReadable :: "files \<Rightarrow> string \<Rightarrow> bool" where
  "isFileReadable fs fileName \<longleftrightarrow> content fs fileName \<noteq> None \<and> can_read fs fileName"

definition isFileWritable :: "files \<Rightarrow> string \<Rightarrow> bool" where
  "isFileWritable fs fileName \<longleftrightarrow> content fs fileName \<noteq> None \<and> can_write fs fileName"

definition isSupported :: "files \<Rightarrow> bool" where
  "isSupported fs \<longleftrightarrow>
     isFileWritable fs MODE_PATH \<and> isFileReadable fs MODE_PATH \<and>
     isFileWritable fs DEFAULT_PATH \<and> isFileReadable fs DEFAULT_PATH"

definition getAvailableModes :: "DisplayMode list" where
  "getAvailableModes = DISPLAY_MODES"

text \<open>
  The body and the handler of
  \<^verbatim>\<open>try { ... } catch (NumberFormatException | ArrayIndexOutOfBoundsException e) { return null; }\<close>:
  the two exceptions named become \<^verbatim>\<open>null\<close>, any other one goes on to the caller.
\<close>

definition read_mode :: "files \<Rightarrow> string \<Rightarrow> java_exn + DisplayMode" where
  "read_mode fs path =
     (case parseInt (readOneLine fs path) of
        Inl e \<Rightarrow> Inl e
      | Inr mode \<Rightarrow> array_get DISPLAY_MODES mode)"

definition catch_null :: "java_exn + DisplayMode \<Rightarrow> java_exn + DisplayMode option" where
  "catch_null r =
     (case r of
        Inr m \<Rightarrow> Inr (Some m)
      | Inl NumberFormatException \<Rightarrow> Inr None
      | Inl ArrayIndexOutOfBoundsException \<Rightarrow> Inr None
      | Inl e \<Rightarrow> Inl e)"

definition getCurrentMode :: "files \<Rightarrow> java_exn + DisplayMode option" where
  "getCurrentMode fs = catch_null (read_mode fs MODE_PATH)"

definition getDefaultMode :: "files \<Rightarrow> java_exn + DisplayMode option" where
  "getDefaultMode fs = catch_null (read_mode fs DEFAULT_PATH)"

definition setMode :: "DisplayMode option \<Rightarrow> bool \<Rightarrow> files \<Rightarrow> bool \<times> files" where
  "setMode mode makeDefault fs =
     (case mode of
        None \<Rightarrow> (False, fs)
      | Some m \<Rightarrow>
          (let (success, fs1) = writeLine MODE_PATH (valueOf (mode_id m)) fs
           in if success \<and> makeDefault
              then writeLine DEFAULT_PATH (valueOf (mode_id m)) fs1
              else (success, fs1)))"

text \<open>The static initialiser of the class, run once when the class is loaded.\<close>

definition clinit :: "files \<Rightarrow> java_exn + files" where
  "clinit fs =
     (if isFileReadable fs DEFAULT_PATH then
        (case getDefaultMode fs of
           Inl e \<Rightarrow> Inl e
         | Inr m \<Rightarrow> Inr (snd (setMode m False fs)))
      else if isFileReadable fs MODE_PATH then
        (case getCurrentMode fs of
           Inl e \<Rightarrow> Inl e
         | Inr m \<Rightarrow> Inr (snd (setMode m True fs)))
      else Inr fs)"

section \<open>Vocabulary of the properties\<close>

text \<open>
  The microseconds that \<^verbatim>\<open>fugu_power_hint\<close> measures from \<open>t0\<close> to \<open>t\<close>: its local
  variable \<^verbatim>\<open>diff\<close>.
\<close>

definition diff_us :: "'l::len word timespec \<Rightarrow> 'l word timespec \<Rightarrow> 64 word" where
  "diff_us t0 t = timespec_to_us (timespec_sub t t0)"

text \<open>
  What a \<^verbatim>\<open>timespec\<close> stands for, in nanoseconds, and the whole microseconds that lie
  between two of them: the elapsed time as the specification words it, to be compared
  with what the code computes.
\<close>

definition ns_of :: "'l::len word timespec \<Rightarrow> int" where
  "ns_of t = sint (tv_sec t) * 1000000000 + sint (tv_nsec t)"

definition whole_us_between :: "'l::len word timespec \<Rightarrow> 'l word timespec \<Rightarrow> int" where
  "whole_us_between b a = (ns_of a - ns_of b) div 1000"





text \<open>
  Two monotonic readings \<open>t0\<close> and \<open>t\<close> whose difference is out of reach of the borrow in
  \<^verbatim>\<open>timespec_sub\<close> and of the width of a \<^verbatim>\<open>long\<close>: both are normalised, \<open>t\<close> is not earlier
  than \<open>t0\<close>, the nanoseconds of \<open>t\<close> are not the smaller ones or differ from those of \<open>t0\<close>
  by whole microseconds, and the microseconds from \<open>t0\<close> to \<open>t\<close> fit a \<^verbatim>\<open>long\<close>. A sequence
  of readings is such when every reading is so related to every later one.
\<close>

definition borrow_free :: "'l::len word timespec \<Rightarrow> 'l word timespec \<Rightarrow> bool" where
  "borrow_free t0 t \<longleftrightarrow>
     0 \<le> sint (tv_nsec t0) \<and> sint (tv_nsec t0) < 1000000000 \<and>
     0 \<le> sint (tv_nsec t) \<and> sint (tv_nsec t) < 1000000000 \<and>
     ns_of t0 \<le> ns_of t \<and>
     (sint (tv_nsec t0) \<le> sint (tv_nsec t) \<or>
      1000 dvd (sint (tv_nsec t) - sint (tv_nsec t0))) \<and>
     (sint (tv_sec t) - sint (tv_sec t0) + 1) * 1000000 \<le> 2 ^ (LENGTH('l) - 1)"


text \<open>The conditions under which a boost hint gets as far as reading the clock.\<close>

definition boost_ready :: "power_profile list \<Rightarrow> 't power_hal \<Rightarrow> bool" where
  "boost_ready profiles s \<longleftrightarrow>
     is_profile_valid profiles (current_power_profile s) \<and>
     boostpulse_duration (profiles ! nat (current_power_profile s)) \<noteq> 0 \<and>
     stat (kfs s) INTERACTIVE_PATH = Some S_IFDIR"

text \<open>The invariant of the selected profile: the sentinel or a valid index.\<close>

definition profile_inv :: "power_profile list \<Rightarrow> 't power_hal \<Rightarrow> bool" where
  "profile_inv profiles s \<longleftrightarrow>
     current_power_profile s = - 1 \<or> is_profile_valid profiles (current_power_profile s)"

subsection \<open>Example inputs\<close>

text \<open>
  A table of two profiles, the first without boost pulses; a kernel with the interactive
  governor; the HAL of a 32-bit target before any profile is selected and with the
  second profile selected; the HAL, for any width of \<^verbatim>\<open>long\<close>, whose last boost came one
  nanosecond before a full second; a filesystem whose default file holds mode 2.
\<close>

definition demo_profiles :: "power_profile list" where
  "demo_profiles =
     [\<lparr>boost = 0, boostpulse_duration = 0, go_hispeed_load = 90, hispeed_freq = 800000,
       io_is_busy = 0, target_loads = ''95'', scaling_min_freq = 800000,
       scaling_max_freq = 1200000\<rparr>,
      \<lparr>boost = 0, boostpulse_duration = 60000, go_hispeed_load = 80, hispeed_freq = 1200000,
       io_is_busy = 1, target_loads = ''90'', scaling_min_freq = 800000,
       scaling_max_freq = 1600000\<rparr>]"

definition demo_sysfs :: sysfs where
  "demo_sysfs =
     \<lparr>stat = (\<lambda>p. if p = INTERACTIVE_PATH then Some S_IFDIR else None),
      wr = (\<lambda>p. WriteOk), rd = (\<lambda>p. None), issued = []\<rparr>"

definition boot_hal :: "32 word power_hal" where
  "boot_hal =
     \<lparr>pulse_duration = 20000, last_boost_time = \<lparr>tv_sec = 100, tv_nsec = 0\<rparr>,
      current_power_profile = - 1, kfs = demo_sysfs\<rparr>"

definition demo_hal :: "32 word power_hal" where
  "demo_hal = boot_hal\<lparr>current_power_profile := 1\<rparr>"


definition demo_files :: files where
  "demo_files =
     \<lparr>content = [MODE_PATH \<mapsto> ''0'', DEFAULT_PATH \<mapsto> ''2''],
      can_read = (\<lambda>p. True), can_write = (\<lambda>p. True), attempts = []\<rparr>"

section \<open>Power HAL: proofs\<close>

subsection \<open>Writes and the governor check\<close>

lemma snd_sysfs_write:
  "snd (sysfs_write path v k) = k\<lparr>issued := issued k @ [(path, v)]\<rparr>"
  by (cases "wr k path") (simp_all add: sysfs_write_def)

lemma snd_sysfs_write_int:
  "snd (sysfs_write_int path v k) = k\<lparr>issued := issued k @ [(path, snprintf_d v)]\<rparr>"
  by (simp add: sysfs_write_int_def snd_sysfs_write)

lemma check_governor_iff: "check_governor k \<longleftrightarrow> stat k INTERACTIVE_PATH = Some S_IFDIR"
  by (simp add: check_governor_def split: option.splits)

lemma profile_at_valid:
  "is_profile_valid profiles i \<Longrightarrow> profile_at profiles i = Inr (profiles ! nat i)"
  by (simp add: is_profile_valid_def PROFILE_MAX_def profile_at_def)

lemma issued_write_profile:
  "issued (write_profile p k) = issued k @
     [(INTERACTIVE_PATH @ ''boost'', snprintf_d (boost p)),
      (INTERACTIVE_PATH @ ''boostpulse_duration'', snprintf_d (boostpulse_duration p)),
      (INTERACTIVE_PATH @ ''go_hispeed_load'', snprintf_d (go_hispeed_load p)),
      (INTERACTIVE_PATH @ ''hispeed_freq'', snprintf_d (hispeed_freq p)),
      (INTERACTIVE_PATH @ ''io_is_busy'', snprintf_d (io_is_busy p)),
      (INTERACTIVE_PATH @ ''target_loads'', target_loads p),
      (CPUFREQ_PATH @ ''scaling_min_freq'', snprintf_d (scaling_min_freq p)),
      (CPUFREQ_PATH @ ''scaling_max_freq'', snprintf_d (scaling_max_freq p))]"
  by (simp add: write_profile_def snd_sysfs_write_int snd_sysfs_write Let_def)

lemma boost_hint_eq:
  "boost_hint profiles t s =
     Inr (if boost_ready profiles s \<and> ucast (pulse_duration s) < diff_us (last_boost_time s) t
          then s\<lparr>kfs := (kfs s)\<lparr>issued := issued (kfs s) @ [(BOOST_PULSE_SYSFS, ''1'')]\<rparr>,
                 last_boost_time := t\<rparr>
          else s)"
  by (simp add: boost_hint_def boost_ready_def profile_at_valid check_governor_iff diff_us_def
      snd_sysfs_write Let_def)

lemma set_power_profile_eq:
  "set_power_profile profiles p s =
     Inr (if is_profile_valid profiles p \<and> p \<noteq> current_power_profile s \<and> check_governor (kfs s)
          then s\<lparr>kfs := write_profile (profiles ! nat p) (kfs s), current_power_profile := p\<rparr>
          else s)"
  by (simp add: set_power_profile_def profile_at_valid)

lemma demo_valid: "is_profile_valid demo_profiles 1" "\<not> is_profile_valid demo_profiles 5"
  by (simp_all add: is_profile_valid_def PROFILE_MAX_def demo_profiles_def)


text \<open>
  Claim C4. \<^verbatim>\<open>set_power_profile\<close> is idempotent: when a call with a valid profile id has
  completed having issued its eight writes, the same call made again issues no write and
  leaves the state, \<^verbatim>\<open>current_power_profile\<close> included, as it is: the selected profile
  now equals the requested one.
\<close>

theorem set_power_profile_idempotent:
  assumes "is_profile_valid profiles p"
    and "set_power_profile profiles p s = Inr s1"
    and "length (issued (kfs s1)) = length (issued (kfs s)) + 8"
  shows "set_power_profile profiles p s1 = Inr s1 \<and> current_power_profile s1 = p"
  using assms by (auto simp add: set_power_profile_eq split: if_splits)

theorem set_power_profile_idempotent_witness:
  "is_profile_valid demo_profiles 1 \<and>
   set_power_profile demo_profiles 1 boot_hal =
     Inr (boot_hal\<lparr>kfs := write_profile (demo_profiles ! 1) demo_sysfs,
                   current_power_profile := 1\<rparr>) \<and>
   issued (write_profile (demo_profiles ! 1) demo_sysfs) =
     [(INTERACTIVE_PATH @ ''boost'', ''0''),
      (INTERACTIVE_PATH @ ''boostpulse_duration'', ''60000''),
      (INTERACTIVE_PATH @ ''go_hispeed_load'', ''80''),
      (INTERACTIVE_PATH @ ''hispeed_freq'', ''1200000''),
      (INTERACTIVE_PATH @ ''io_is_busy'', ''1''),
      (INTERACTIVE_PATH @ ''target_loads'', ''90''),
      (CPUFREQ_PATH @ ''scaling_min_freq'', ''800000''),
      (CPUFREQ_PATH @ ''scaling_max_freq'', ''1600000'')] \<and>
   set_power_profile demo_profiles 1
       (boot_hal\<lparr>kfs := write_profile (demo_profiles ! 1) demo_sysfs,
                  current_power_profile := 1\<rparr>) =
     Inr (boot_hal\<lparr>kfs := write_profile (demo_profiles ! 1) demo_sysfs,
                   current_power_profile := 1\<rparr>)"
proof -
  let ?s1 = "boot_hal\<lparr>kfs := write_profile (demo_profiles ! 1) demo_sysfs,
                      current_power_profile := 1\<rparr>"
  have first: "set_power_profile demo_profiles 1 boot_hal = Inr ?s1"
    by (simp add: set_power_profile_eq demo_valid check_governor_iff boot_hal_def demo_sysfs_def)
  have writes: "issued (write_profile (demo_profiles ! 1) demo_sysfs) =
     [(INTERACTIVE_PATH @ ''boost'', ''0''),
      (INTERACTIVE_PATH @ ''boostpulse_duration'', ''60000''),
      (INTERACTIVE_PATH @ ''go_hispeed_load'', ''80''),
      (INTERACTIVE_PATH @ ''hispeed_freq'', ''1200000''),
      (INTERACTIVE_PATH @ ''io_is_busy'', ''1''),
      (INTERACTIVE_PATH @ ''target_loads'', ''90''),
      (CPUFREQ_PATH @ ''scaling_min_freq'', ''800000''),
      (CPUFREQ_PATH @ ''scaling_max_freq'', ''1600000'')]"
    by (simp add: issued_write_profile demo_profiles_def demo_sysfs_def snprintf_d_def
        dec_nat.simps digit_char_def)
  have eight: "length (issued (kfs ?s1)) = length (issued (kfs boot_hal)) + 8"
    by (simp add: issued_write_profile boot_hal_def)
  from set_power_profile_idempotent [OF demo_valid(1) first eight] first writes demo_valid(1)
  show ?thesis by simp
qed


subsection \<open>The selected profile stays valid\<close>

lemma hal_call_total:
  "\<exists>s'. hal_call profiles atoi c s = Inr s'"
proof (cases c)
  case (PowerHint t h)
  then show ?thesis
    by (cases h) (simp_all add: boost_hint_eq set_power_profile_eq)
qed simp_all

lemma hal_call_inv:
  assumes "profile_inv profiles s" and "hal_call profiles atoi c s = Inr s'"
  shows "profile_inv profiles s'"
proof (cases c)
  case (Init t)
  with assms show ?thesis by (auto simp add: profile_inv_def fugu_power_init_def Let_def)
next
  case (SetInteractive on)
  with assms show ?thesis by (auto simp add: fugu_power_set_interactive_def)
next
  case (PowerHint t h)
  with assms show ?thesis
    by (cases h) (auto simp add: boost_hint_eq set_power_profile_eq profile_inv_def split: if_splits)
next
  case (GetFeature f)
  with assms show ?thesis by simp
qed

lemma hal_run_inv:
  "profile_inv profiles s \<Longrightarrow>
     \<exists>s'. hal_run profiles atoi cs s = Inr s' \<and> profile_inv profiles s'"
proof (induction cs arbitrary: s)
  case Nil
  then show ?case by simp
next
  case (Cons c cs)
  obtain s1 where s1: "hal_call profiles atoi c s = Inr s1"
    using hal_call_total by blast
  with Cons.prems have "profile_inv profiles s1" by (rule hal_call_inv)
  from Cons.IH [OF this] s1 show ?case by simp
qed

text \<open>
  Claim C5. Every operation of the HAL keeps \<^verbatim>\<open>current_power_profile\<close> either the sentinel
  \<open>-1\<close> or a valid index of the table, along every sequence of calls; no call ever reads
  the table outside its bounds, whatever the state (a read outside the table is the
  fault \<open>OutOfBounds\<close> of the model, and no call returns it); and a \<^verbatim>\<open>SET_PROFILE\<close> hint
  with an id out of range returns with the whole state, the selected profile and the
  kernel's files included, as it was.
\<close>

theorem profile_index_always_valid:
  "(profile_inv profiles s \<longrightarrow>
      (\<exists>s'. hal_run profiles atoi cs s = Inr s' \<and> profile_inv profiles s')) \<and>
   (\<exists>s'. hal_call profiles atoi c s = Inr s') \<and>
   (\<not> is_profile_valid profiles d \<longrightarrow>
      fugu_power_hint profiles t (POWER_HINT_SET_PROFILE d) s = Inr s)"
  by (simp add: hal_run_inv hal_call_total set_power_profile_eq)

theorem profile_index_always_valid_witness:
  "profile_inv demo_profiles boot_hal \<and>
   (\<exists>s'. hal_run demo_profiles (\<lambda>line. 20000)
           [Init \<lparr>tv_sec = 100, tv_nsec = 0\<rparr>,
            PowerHint \<lparr>tv_sec = 101, tv_nsec = 0\<rparr> (POWER_HINT_SET_PROFILE 1),
            PowerHint \<lparr>tv_sec = 102, tv_nsec = 0\<rparr> POWER_HINT_INTERACTION,
            PowerHint \<lparr>tv_sec = 103, tv_nsec = 0\<rparr> (POWER_HINT_SET_PROFILE 5),
            GetFeature POWER_FEATURE_SUPPORTED_PROFILES] boot_hal = Inr s' \<and>
         profile_inv demo_profiles s') \<and>
   \<not> is_profile_valid demo_profiles 5 \<and>
   fugu_power_hint demo_profiles \<lparr>tv_sec = 103, tv_nsec = 0\<rparr> (POWER_HINT_SET_PROFILE 5) demo_hal =
     Inr demo_hal"
  using profile_index_always_valid [of demo_profiles boot_hal "\<lambda>line. 20000"
      "[Init \<lparr>tv_sec = 100, tv_nsec = 0\<rparr>,
        PowerHint \<lparr>tv_sec = 101, tv_nsec = 0\<rparr> (POWER_HINT_SET_PROFILE 1),
        PowerHint \<lparr>tv_sec = 102, tv_nsec = 0\<rparr> POWER_HINT_INTERACTION,
        PowerHint \<lparr>tv_sec = 103, tv_nsec = 0\<rparr> (POWER_HINT_SET_PROFILE 5),
        GetFeature POWER_FEATURE_SUPPORTED_PROFILES]"]
    profile_index_always_valid [of demo_profiles demo_hal _ _ _ 5 "\<lparr>tv_sec = 103, tv_nsec = 0\<rparr>"]
    demo_valid(2)
  by (simp add: profile_inv_def boot_hal_def)

subsection \<open>Elapsed time\<close>

lemma sint_in_range:
  fixes k :: int
  assumes "- (2 ^ (LENGTH('l::len) - 1)) \<le> k" and "k < 2 ^ (LENGTH('l) - 1)"
  shows "sint (word_of_int k :: 'l word) = k"
  using assms by (simp add: sint_sbintrunc' signed_take_bit_int_eq_self)

lemma word_of_int_sint_self: "word_of_int (sint w) = (w :: 'l::len word)"
proof -
  have "(scast w :: 'l word) = word_of_int (sint w)" by (rule scast_eq)
  then show ?thesis by simp
qed

text \<open>
  What the code computes when nothing overflows: for a \<^verbatim>\<open>long\<close> of 32 to 64 bits, two
  normalised times, the later one with the greater or equal seconds field, and a
  difference whose microseconds fit a \<^verbatim>\<open>long\<close>, the result is the whole microseconds
  between the two times, plus one exactly when the later time has the smaller
  nanoseconds field and the nanoseconds differ by no multiple of 1000.
\<close>

lemma timespec_elapsed_us:
  fixes a b :: "'l::len word timespec"
  assumes width: "32 \<le> LENGTH('l)" "LENGTH('l) \<le> 64"
    and nsec: "0 \<le> sint (tv_nsec a)" "sint (tv_nsec a) < 1000000000"
      "0 \<le> sint (tv_nsec b)" "sint (tv_nsec b) < 1000000000"
    and sec: "sint (tv_sec b) \<le> sint (tv_sec a)"
    and later: "ns_of b \<le> ns_of a"
    and fits: "(sint (tv_sec a) - sint (tv_sec b) + 1) * 1000000 \<le> 2 ^ (LENGTH('l) - 1)"
  shows "uint (timespec_to_us (timespec_sub a b)) =
     whole_us_between b a +
       (if sint (tv_nsec a) < sint (tv_nsec b) \<and>
           \<not> 1000 dvd (sint (tv_nsec a) - sint (tv_nsec b)) then 1 else 0)"
proof -
  define P :: int where "P = 2 ^ (LENGTH('l) - 1)"
  define S where "S = sint (tv_sec a) - sint (tv_sec b)"
  define N where "N = sint (tv_nsec a) - sint (tv_nsec b)"
  have "(2::int) ^ 31 \<le> 2 ^ (LENGTH('l) - 1)"
    using width(1) by (intro power_increasing) simp_all
  then have P_lo: "2147483648 \<le> P" by (simp add: P_def)
  have "(2::int) ^ (LENGTH('l) - 1) \<le> 2 ^ 63"
    using width(2) by (intro power_increasing) simp_all
  then have P_hi: "P \<le> 9223372036854775808" by (simp add: P_def)
  have S0: "0 \<le> S" using sec by (simp add: S_def)
  have N_range: "- 1000000000 < N" "N < 1000000000" using nsec by (simp_all add: N_def)
  have fits': "(S + 1) * 1000000 \<le> P" using fits by (simp add: S_def P_def)
  have S_hi: "S < P" using fits' S0 by simp
  have sint_P: "- P \<le> k \<Longrightarrow> k < P \<Longrightarrow> sint (word_of_int k :: 'l word) = k" for k
    unfolding P_def by (rule sint_in_range)
  have stb: "signed_take_bit (LENGTH('l) - Suc 0) (1000 :: int) = 1000"
    using P_lo by (intro signed_take_bit_int_eq_self) (simp_all add: P_def)
  have sec_eq: "tv_sec a - tv_sec b = (word_of_int S :: 'l word)"
    by (simp add: S_def word_of_int_sint_self)
  have nsec_eq: "tv_nsec a - tv_nsec b = (word_of_int N :: 'l word)"
    by (simp add: N_def word_of_int_sint_self)
  have sint_nsec: "sint (word_of_int N :: 'l word) = N"
    using N_range P_lo by (intro sint_P) simp_all
  have q_range: "- 1000000 < N sdiv 1000" "N sdiv 1000 < 1000000"
    using N_range by (auto simp add: signed_divide_int_def sgn_if abs_if; linarith)+
  define V where "V = S * 1000000 + N sdiv 1000"
  have later': "0 \<le> S * 1000000000 + N"
    using later by (simp add: ns_of_def S_def N_def algebra_simps)
  have V0: "0 \<le> V"
  proof (cases "S = 0")
    case True
    with later' have "0 \<le> N" by simp
    then have "0 \<le> N sdiv 1000" by (simp add: signed_divide_int_def sgn_if)
    with True show ?thesis by (simp add: V_def)
  next
    case False
    with S0 have "1 \<le> S" by simp
    then have "1000000 \<le> S * 1000000" by simp
    with q_range show ?thesis by (simp add: V_def)
  qed
  have V_hi: "V < P" using fits' q_range by (simp add: V_def algebra_simps)
  have sum: "tv_sec (timespec_sub a b) * 1000000 + long_div (tv_nsec (timespec_sub a b)) 1000 =
      (word_of_int V :: 'l word)"
    using sec by (simp add: timespec_sub_def sec_eq nsec_eq long_div_def sint_nsec stb V_def)
  have "timespec_to_us (timespec_sub a b) = (word_of_int V :: 64 word)"
    unfolding timespec_to_us_def sum scast_eq using V0 V_hi by (simp add: sint_P)
  then have "uint (timespec_to_us (timespec_sub a b)) = V mod 2 ^ 64"
    by (simp add: uint_word_of_int)
  also have "\<dots> = V" using V0 V_hi P_hi by simp
  also have "V = whole_us_between b a +
       (if N < 0 \<and> \<not> 1000 dvd N then 1 else 0)"
  proof -
    have "whole_us_between b a = (S * 1000000000 + N) div 1000"
      by (simp add: whole_us_between_def ns_of_def S_def N_def algebra_simps)
    also have "\<dots> = S * 1000000 + N div 1000" by simp
    finally have w: "whole_us_between b a = S * 1000000 + N div 1000" .
    have "N sdiv 1000 = N div 1000 + (if N < 0 \<and> \<not> 1000 dvd N then 1 else 0)"
      by (auto simp add: signed_divide_int_eq_divide_int sgn_if)
    with w show ?thesis by (simp add: V_def)
  qed
  finally show ?thesis by (simp add: N_def)
qed

text \<open>
  Where the microseconds do not fit a \<^verbatim>\<open>long\<close> the product wraps in the model, as it does
  in the compiled code of a 32-bit target (C leaves the overflow undefined): 5000
  seconds come out as 705032704 microseconds.
\<close>

lemma timespec_to_us_wraps_32:
  "timespec_to_us (timespec_sub \<lparr>tv_sec = 5000, tv_nsec = 0\<rparr>
     \<lparr>tv_sec = 0 :: 32 word, tv_nsec = 0\<rparr>) = 705032704 \<and>
   whole_us_between \<lparr>tv_sec = 0 :: 32 word, tv_nsec = 0\<rparr> \<lparr>tv_sec = 5000, tv_nsec = 0\<rparr> =
     5000000000"
  by (simp add: ns_of_def whole_us_between_def timespec_sub_def timespec_to_us_def long_div_def)

text \<open>
  Claim C3 says that \<^verbatim>\<open>timespec_to_us\<close> of \<^verbatim>\<open>timespec_sub\<close> gives the whole microseconds
  between two monotonic times. \<^verbatim>\<open>timespec_sub\<close> decides the borrow on the seconds instead
  of the nanoseconds, so for a later time with the smaller nanosecond field it leaves
  \<^verbatim>\<open>tv_nsec\<close> negative, and the truncating division then rounds up. From 1.999999999 s to
  2.000000000 s one nanosecond passes, that is zero whole microseconds, and the code
  answers 1, on a 32-bit and on a 64-bit \<^verbatim>\<open>long\<close> alike.
\<close>

theorem timespec_borrow_off_by_one:
  "0 \<le> sint (tv_nsec \<lparr>tv_sec = 1 :: 32 word, tv_nsec = 999999999\<rparr>) \<and>
   sint (tv_nsec \<lparr>tv_sec = 1 :: 32 word, tv_nsec = 999999999\<rparr>) < 1000000000 \<and>
   ns_of \<lparr>tv_sec = 2 :: 32 word, tv_nsec = 0\<rparr> - ns_of \<lparr>tv_sec = 1 :: 32 word, tv_nsec = 999999999\<rparr> = 1 \<and>
   whole_us_between \<lparr>tv_sec = 1 :: 32 word, tv_nsec = 999999999\<rparr> \<lparr>tv_sec = 2, tv_nsec = 0\<rparr> = 0 \<and>
   timespec_sub \<lparr>tv_sec = 2, tv_nsec = 0\<rparr> \<lparr>tv_sec = 1 :: 32 word, tv_nsec = 999999999\<rparr> =
     \<lparr>tv_sec = 1, tv_nsec = - 999999999\<rparr> \<and>
   timespec_to_us (timespec_sub \<lparr>tv_sec = 2, tv_nsec = 0\<rparr>
     \<lparr>tv_sec = 1 :: 32 word, tv_nsec = 999999999\<rparr>) = 1 \<and>
   timespec_to_us (timespec_sub \<lparr>tv_sec = 2, tv_nsec = 0\<rparr>
     \<lparr>tv_sec = 1 :: 64 word, tv_nsec = 999999999\<rparr>) = 1"
  by (simp add: ns_of_def whole_us_between_def timespec_sub_def timespec_to_us_def long_div_def)


subsection \<open>Boost hints and elapsed time\<close>

lemma borrow_free_exact:
  fixes t0 t :: "'l::len word timespec"
  assumes "32 \<le> LENGTH('l)" and "LENGTH('l) \<le> 64" and "borrow_free t0 t"
  shows "uint (diff_us t0 t) = whole_us_between t0 t"
proof -
  from assms(3) have n: "0 \<le> sint (tv_nsec t)" "sint (tv_nsec t) < 1000000000"
    "0 \<le> sint (tv_nsec t0)" "sint (tv_nsec t0) < 1000000000"
    and later: "ns_of t0 \<le> ns_of t"
    and plain: "sint (tv_nsec t0) \<le> sint (tv_nsec t) \<or>
      1000 dvd (sint (tv_nsec t) - sint (tv_nsec t0))"
    and fits: "(sint (tv_sec t) - sint (tv_sec t0) + 1) * 1000000 \<le> 2 ^ (LENGTH('l) - 1)"
    by (simp_all add: borrow_free_def)
  from later n have "(sint (tv_sec t0) - sint (tv_sec t)) * 1000000000 < 1000000000"
    by (simp add: ns_of_def algebra_simps)
  then have sec: "sint (tv_sec t0) \<le> sint (tv_sec t)" by simp
  from timespec_elapsed_us [OF assms(1,2) n sec later fits] plain show ?thesis
    by (auto simp add: diff_us_def)
qed

lemma pulse_test_exact:
  fixes t0 t :: "'l::len word timespec" and d :: "32 word"
  assumes "32 \<le> LENGTH('l)" and "LENGTH('l) \<le> 64" and "borrow_free t0 t"
  shows "ucast d < diff_us t0 t \<longleftrightarrow> uint d < whole_us_between t0 t"
proof -
  have "uint (ucast d :: 64 word) = uint d"
    by (simp add: uint_up_ucast is_up)
  then show ?thesis
    by (simp add: word_less_def borrow_free_exact [OF assms])
qed

text \<open>
  Away from the borrow and from overflow the gate is the one of the specification: a
  boost hint issues the pulse and takes the new timestamp exactly when a valid profile
  with a pulse duration is selected, the governor is present, and more whole
  microseconds than \<^verbatim>\<open>pulse_duration\<close> have elapsed since \<^verbatim>\<open>last_boost_time\<close>.
\<close>

lemma boost_hint_exact:
  fixes t :: "'l::len word timespec"
  assumes "h = POWER_HINT_INTERACTION \<or> h = POWER_HINT_CPU_BOOST \<or> h = POWER_HINT_LAUNCH_BOOST"
    and "32 \<le> LENGTH('l)" and "LENGTH('l) \<le> 64"
    and "borrow_free (last_boost_time s) t"
  shows "fugu_power_hint profiles t h s =
     Inr (if is_profile_valid profiles (current_power_profile s) \<and>
             boostpulse_duration (profiles ! nat (current_power_profile s)) \<noteq> 0 \<and>
             stat (kfs s) INTERACTIVE_PATH = Some S_IFDIR \<and>
             uint (pulse_duration s) < whole_us_between (last_boost_time s) t
          then s\<lparr>kfs := (kfs s)\<lparr>issued := issued (kfs s) @ [(BOOST_PULSE_SYSFS, ''1'')]\<rparr>,
                 last_boost_time := t\<rparr>
          else s)"
  using assms(1) pulse_test_exact [OF assms(2-4), of "pulse_duration s"]
  by (auto simp add: boost_hint_eq boost_ready_def)


text \<open>
  On a 32-bit \<^verbatim>\<open>long\<close> the wrapped product can hide an elapsed time as well: with the
  last boost at 100 s and a pulse duration of 20000, a hint 4294.97 s later measures
  2704 microseconds and issues nothing.
\<close>

lemma boost_hint_after_wrap_32:
  "whole_us_between (last_boost_time demo_hal) \<lparr>tv_sec = 4394, tv_nsec = 970000000\<rparr> =
     4294970000 \<and>
   fugu_power_hint demo_profiles \<lparr>tv_sec = 4394, tv_nsec = 970000000\<rparr> POWER_HINT_INTERACTION
     demo_hal = Inr demo_hal"
proof -
  have "diff_us \<lparr>tv_sec = 100, tv_nsec = 0\<rparr> \<lparr>tv_sec = 4394 :: 32 word, tv_nsec = 970000000\<rparr> = 2704"
    by (simp add: diff_us_def timespec_to_us_def timespec_sub_def long_div_def)
  then have "fugu_power_hint demo_profiles \<lparr>tv_sec = 4394, tv_nsec = 970000000\<rparr>
      POWER_HINT_INTERACTION demo_hal = Inr demo_hal"
    by (simp add: boost_hint_eq demo_hal_def boot_hal_def)
  moreover have "whole_us_between (last_boost_time demo_hal)
      \<lparr>tv_sec = 4394, tv_nsec = 970000000\<rparr> = 4294970000"
    by (simp add: whole_us_between_def ns_of_def demo_hal_def boot_hal_def)
  ultimately show ?thesis by blast
qed

subsection \<open>Bursts of interaction hints\<close>







section \<open>Display modes: proofs\<close>

subsection \<open>Printing and parsing decimal numbers\<close>

lemma digit_digit_char: "d < 10 \<Longrightarrow> digit (digit_char d) = Some d"
proof -
  assume "d < 10"
  then consider "d = 0" | "d = 1" | "d = 2" | "d = 3" | "d = 4"
    | "d = 5" | "d = 6" | "d = 7" | "d = 8" | "d = 9"
    by (auto simp add: less_Suc_eq numeral_eq_Suc)
  then show ?thesis
    by cases (simp_all add: digit_def digit_char_def)
qed

lemma digit_char_no_sign:
  "d < 10 \<Longrightarrow> digit_char d \<noteq> CHR ''-'' \<and> digit_char d \<noteq> CHR ''+'' \<and>
     digit_char d \<noteq> CHR 0x0A \<and> digit_char d \<noteq> CHR 0x0D"
proof -
  assume "d < 10"
  then consider "d = 0" | "d = 1" | "d = 2" | "d = 3" | "d = 4"
    | "d = 5" | "d = 6" | "d = 7" | "d = 8" | "d = 9"
    by (auto simp add: less_Suc_eq numeral_eq_Suc)
  then show ?thesis
    by cases (simp_all add: digit_char_def)
qed

lemma parse_digits_append:
  "parse_digits acc (xs @ ys) =
     (case parse_digits acc xs of None \<Rightarrow> None | Some a \<Rightarrow> parse_digits a ys)"
  by (induction xs arbitrary: acc) (simp_all split: option.splits)

lemma parse_digits_dec_nat: "parse_digits 0 (dec_nat n) = Some n"
proof (induction n rule: dec_nat.induct)
  case (1 n)
  show ?case
  proof (cases "n < 10")
    case True
    then show ?thesis by (subst dec_nat.simps) (simp add: digit_digit_char)
  next
    case False
    with 1 have "parse_digits 0 (dec_nat (n div 10)) = Some (n div 10)" by simp
    with False show ?thesis
      by (subst dec_nat.simps) (simp add: parse_digits_append digit_digit_char)
  qed
qed

lemma dec_nat_chars:
  "dec_nat n \<noteq> [] \<and> (\<forall>c \<in> set (dec_nat n). \<exists>d < 10. c = digit_char d)"
proof (induction n rule: dec_nat.induct)
  case (1 n)
  show ?case
  proof (cases "n < 10")
    case True
    then have "dec_nat n = [digit_char n]" by (subst dec_nat.simps) simp
    with True show ?thesis by auto
  next
    case False
    then have eq: "dec_nat n = dec_nat (n div 10) @ [digit_char (n mod 10)]"
      by (subst dec_nat.simps) simp
    from 1 False have ih: "\<forall>c \<in> set (dec_nat (n div 10)). \<exists>d < 10. c = digit_char d" by simp
    have "n mod 10 < 10" by simp
    then have "\<exists>d < 10. digit_char (n mod 10) = digit_char d" by blast
    with ih show ?thesis by (simp add: eq)
  qed
qed

lemma dec_nat_Cons:
  obtains c cs where "dec_nat n = c # cs" "c \<noteq> CHR ''-''" "c \<noteq> CHR ''+''"
proof -
  from dec_nat_chars [of n] obtain c cs where eq: "dec_nat n = c # cs"
    by (cases "dec_nat n") auto
  with dec_nat_chars [of n] obtain d where d: "d < 10" "c = digit_char d" by auto
  from digit_char_no_sign [OF d(1)] d(2) have "c \<noteq> CHR ''-''" "c \<noteq> CHR ''+''"
    by simp_all
  with eq show ?thesis by (rule that)
qed

lemma dec_nat_one_line:
  "takeWhile (\<lambda>c. c \<noteq> CHR 0x0A \<and> c \<noteq> CHR 0x0D) (dec_nat n) = dec_nat n"
proof -
  have "c \<noteq> CHR 0x0A \<and> c \<noteq> CHR 0x0D" if "c \<in> set (dec_nat n)" for c
  proof -
    from dec_nat_chars [of n] that obtain d where d: "d < 10" "c = digit_char d" by auto
    from digit_char_no_sign [OF d(1)] d(2) show ?thesis by simp
  qed
  then show ?thesis by simp
qed

lemma parseInt_valueOf:
  assumes "- 2147483648 \<le> i" and "i \<le> 2147483647"
  shows "parseInt (Some (valueOf i)) = Inr i"
proof (cases "i < 0")
  case True
  obtain c cs where "dec_nat (nat (- i)) = c # cs" by (rule dec_nat_Cons)
  with True assms parse_digits_dec_nat [of "nat (- i)"] show ?thesis
    by (simp add: parseInt_def valueOf_def snprintf_d_def)
next
  case False
  obtain c cs where "dec_nat (nat i) = c # cs" "c \<noteq> CHR ''-''" "c \<noteq> CHR ''+''"
    by (rule dec_nat_Cons)
  with False assms parse_digits_dec_nat [of "nat i"] show ?thesis
    by (simp add: parseInt_def valueOf_def snprintf_d_def)
qed

lemma valueOf_one_line:
  "0 \<le> i \<Longrightarrow> valueOf i \<noteq> [] \<and>
     takeWhile (\<lambda>c. c \<noteq> CHR 0x0A \<and> c \<noteq> CHR 0x0D) (valueOf i) = valueOf i"
  using dec_nat_chars [of "nat i"] by (simp add: valueOf_def snprintf_d_def dec_nat_one_line)

subsection \<open>Reading a mode\<close>

lemma paths_differ: "MODE_PATH \<noteq> DEFAULT_PATH"
  by (simp add: MODE_PATH_def DEFAULT_PATH_def)

lemma parseInt_exn: "parseInt s = Inl e \<Longrightarrow> e = NumberFormatException"
  by (auto simp add: parseInt_def split: option.splits list.splits if_splits)

lemma catch_read_mode:
  "catch_null (read_mode fs path) =
     Inr (case parseInt (readOneLine fs path) of
            Inl e \<Rightarrow> None
          | Inr i \<Rightarrow> if 0 \<le> i \<and> i < 4 then Some (DISPLAY_MODES ! nat i) else None)"
proof (cases "parseInt (readOneLine fs path)")
  case (Inl e)
  then have "e = NumberFormatException" by (rule parseInt_exn)
  with Inl show ?thesis by (simp add: catch_null_def read_mode_def)
next
  case (Inr i)
  then show ?thesis
    by (simp add: catch_null_def read_mode_def array_get_def DISPLAY_MODES_def)
qed

text \<open>
  Claim C6. \<^verbatim>\<open>getCurrentMode\<close> and \<^verbatim>\<open>getDefaultMode\<close> always return and never pass an
  exception on (the result is never \<open>Inl\<close>). They return \<^verbatim>\<open>null\<close> when the line of the mode
  file, respectively of the default file, does not parse as an integer, or parses to an
  integer outside the indices 0 to 3 of the table; and when it parses to an index \<open>i\<close> of
  the table they return the entry at \<open>i\<close>.
\<close>

theorem mode_getters_never_throw:
  "getCurrentMode fs =
     Inr (case parseInt (readOneLine fs MODE_PATH) of
            Inl e \<Rightarrow> None
          | Inr i \<Rightarrow> if 0 \<le> i \<and> i < 4 then Some (DISPLAY_MODES ! nat i) else None) \<and>
   getDefaultMode fs =
     Inr (case parseInt (readOneLine fs DEFAULT_PATH) of
            Inl e \<Rightarrow> None
          | Inr i \<Rightarrow> if 0 \<le> i \<and> i < 4 then Some (DISPLAY_MODES ! nat i) else None)"
  by (simp add: getCurrentMode_def getDefaultMode_def catch_read_mode)

theorem mode_getters_never_throw_witness:
  "getCurrentMode demo_files = Inr (Some \<lparr>mode_id = 0, mode_name = ''Dynamic''\<rparr>) \<and>
   getDefaultMode demo_files = Inr (Some \<lparr>mode_id = 2, mode_name = ''Cinema''\<rparr>) \<and>
   getCurrentMode (demo_files\<lparr>content := [MODE_PATH \<mapsto> ''7'']\<rparr>) = Inr None \<and>
   getDefaultMode (demo_files\<lparr>content := [MODE_PATH \<mapsto> ''7'']\<rparr>) = Inr None \<and>
   getCurrentMode (demo_files\<lparr>content := [MODE_PATH \<mapsto> ''Auto'']\<rparr>) = Inr None \<and>
   getCurrentMode (demo_files\<lparr>content := [MODE_PATH \<mapsto> ''-1'']\<rparr>) = Inr None"
proof -
  have lines:
    "readOneLine demo_files MODE_PATH = Some ''0''"
    "readOneLine demo_files DEFAULT_PATH = Some ''2''"
    "readOneLine (demo_files\<lparr>content := [MODE_PATH \<mapsto> ''7'']\<rparr>) MODE_PATH = Some ''7''"
    "readOneLine (demo_files\<lparr>content := [MODE_PATH \<mapsto> ''7'']\<rparr>) DEFAULT_PATH = None"
    "readOneLine (demo_files\<lparr>content := [MODE_PATH \<mapsto> ''Auto'']\<rparr>) MODE_PATH = Some ''Auto''"
    "readOneLine (demo_files\<lparr>content := [MODE_PATH \<mapsto> ''-1'']\<rparr>) MODE_PATH = Some ''-1''"
    using paths_differ by (simp_all add: readOneLine_def demo_files_def)
  have parses:
    "parseInt (Some ''0'') = Inr 0" "parseInt (Some ''2'') = Inr 2" "parseInt (Some ''7'') = Inr 7"
    "parseInt None = Inl NumberFormatException"
    "parseInt (Some ''Auto'') = Inl NumberFormatException"
    "parseInt (Some ''-1'') = Inr (- 1)"
    by (simp_all add: parseInt_def digit_def)
  show ?thesis
    using mode_getters_never_throw [of demo_files]
      mode_getters_never_throw [of "demo_files\<lparr>content := [MODE_PATH \<mapsto> ''7'']\<rparr>"]
      mode_getters_never_throw [of "demo_files\<lparr>content := [MODE_PATH \<mapsto> ''Auto'']\<rparr>"]
      mode_getters_never_throw [of "demo_files\<lparr>content := [MODE_PATH \<mapsto> ''-1'']\<rparr>"]
    by (simp add: lines parses DISPLAY_MODES_def)
qed

subsection \<open>Setting a mode\<close>

text \<open>
  Claim C7. \<^verbatim>\<open>setMode(null, makeDefault)\<close> returns \<^verbatim>\<open>false\<close>, whatever \<^verbatim>\<open>makeDefault\<close> and the
  files are, and leaves the files as they were: no content changes and no write is
  attempted.
\<close>

theorem setMode_null: "setMode None makeDefault fs = (False, fs)"
  by (simp add: setMode_def)

lemma valueOf_small:
  "valueOf 0 = ''0''" "valueOf 1 = ''1''" "valueOf 2 = ''2''" "valueOf 3 = ''3''"
  by (simp_all add: valueOf_def snprintf_d_def dec_nat.simps digit_char_def)

text \<open>
  Claim C8. For a mode that is not \<^verbatim>\<open>null\<close>, \<^verbatim>\<open>setMode\<close> writes the decimal string of the
  mode's id to the mode file; when that write succeeds and \<^verbatim>\<open>makeDefault\<close> is set it writes
  the same string to the default file as well, and otherwise makes no second write; it
  returns \<^verbatim>\<open>true\<close> exactly when the mode file could be written and, if \<^verbatim>\<open>makeDefault\<close> is
  set, the default file too. The string written is the decimal numeral of the id:
  parsing it gives the id back, for every id of Java's \<^verbatim>\<open>int\<close>.
\<close>

theorem setMode_writes:
  "fst (setMode (Some m) makeDefault fs) =
     (can_write fs MODE_PATH \<and> (if makeDefault then can_write fs DEFAULT_PATH else True)) \<and>
   attempts (snd (setMode (Some m) makeDefault fs)) =
     attempts fs @ (MODE_PATH, valueOf (mode_id m)) #
       (if can_write fs MODE_PATH \<and> makeDefault then [(DEFAULT_PATH, valueOf (mode_id m))] else []) \<and>
   content (snd (setMode (Some m) makeDefault fs)) =
     (if can_write fs MODE_PATH
      then if makeDefault \<and> can_write fs DEFAULT_PATH
           then (content fs)(MODE_PATH \<mapsto> valueOf (mode_id m), DEFAULT_PATH \<mapsto> valueOf (mode_id m))
           else (content fs)(MODE_PATH \<mapsto> valueOf (mode_id m))
      else content fs) \<and>
   (- 2147483648 \<le> mode_id m \<and> mode_id m \<le> 2147483647 \<longrightarrow>
      parseInt (Some (valueOf (mode_id m))) = Inr (mode_id m))"
  by (simp add: setMode_def writeLine_def Let_def parseInt_valueOf)

theorem setMode_writes_witness:
  "fst (setMode (Some \<lparr>mode_id = 3, mode_name = ''Auto''\<rparr>) True demo_files) = True \<and>
   attempts (snd (setMode (Some \<lparr>mode_id = 3, mode_name = ''Auto''\<rparr>) True demo_files)) =
     [(MODE_PATH, ''3''), (DEFAULT_PATH, ''3'')] \<and>
   content (snd (setMode (Some \<lparr>mode_id = 3, mode_name = ''Auto''\<rparr>) True demo_files)) =
     [MODE_PATH \<mapsto> ''3'', DEFAULT_PATH \<mapsto> ''3''] \<and>
   fst (setMode (Some \<lparr>mode_id = 3, mode_name = ''Auto''\<rparr>) True
          (demo_files\<lparr>can_write := (\<lambda>p. p = MODE_PATH)\<rparr>)) = False \<and>
   attempts (snd (setMode (Some \<lparr>mode_id = 3, mode_name = ''Auto''\<rparr>) True
          (demo_files\<lparr>can_write := (\<lambda>p. p = MODE_PATH)\<rparr>))) =
     [(MODE_PATH, ''3''), (DEFAULT_PATH, ''3'')] \<and>
   content (snd (setMode (Some \<lparr>mode_id = 3, mode_name = ''Auto''\<rparr>) True
          (demo_files\<lparr>can_write := (\<lambda>p. p = MODE_PATH)\<rparr>))) =
     [MODE_PATH \<mapsto> ''3'', DEFAULT_PATH \<mapsto> ''2''] \<and>
   - 2147483648 \<le> mode_id \<lparr>mode_id = 3, mode_name = ''Auto''\<rparr> \<and>
   mode_id \<lparr>mode_id = 3, mode_name = ''Auto''\<rparr> \<le> 2147483647 \<and>
   parseInt (Some ''3'') = Inr 3"
  using setMode_writes [of "\<lparr>mode_id = 3, mode_name = ''Auto''\<rparr>" True demo_files]
    setMode_writes [of "\<lparr>mode_id = 3, mode_name = ''Auto''\<rparr>" True
      "demo_files\<lparr>can_write := (\<lambda>p. p = MODE_PATH)\<rparr>"]
    paths_differ
  by (simp add: valueOf_small demo_files_def fun_upd_twist)

lemma setMode_success_content:
  assumes "setMode (Some m) makeDefault fs = (True, fs')"
  shows "content fs' MODE_PATH = Some (valueOf (mode_id m))"
  using assms paths_differ
  by (auto simp add: setMode_def writeLine_def Let_def split: if_splits)

lemma table_entry:
  assumes "m \<in> set DISPLAY_MODES"
  shows "0 \<le> mode_id m \<and> mode_id m < 4 \<and> DISPLAY_MODES ! nat (mode_id m) = m"
  using assms by (auto simp add: DISPLAY_MODES_def)

text \<open>
  Claim C9. Round trip over the fake filesystem, where the mode file can be read back:
  after \<^verbatim>\<open>setMode\<close> has succeeded for an entry of the table, with or without
  \<^verbatim>\<open>makeDefault\<close>, \<^verbatim>\<open>getCurrentMode\<close> returns that entry, the one of the table with the same
  id.
\<close>

theorem setMode_getCurrentMode:
  assumes "m \<in> set DISPLAY_MODES"
    and "setMode (Some m) makeDefault fs = (True, fs')"
    and "can_read fs' MODE_PATH"
  shows "getCurrentMode fs' = Inr (Some m)"
proof -
  note entry = table_entry [OF assms(1)]
  have "content fs' MODE_PATH = Some (valueOf (mode_id m))"
    using assms(2) by (rule setMode_success_content)
  with assms(3) have "readOneLine fs' MODE_PATH = Some (valueOf (mode_id m))"
    using entry valueOf_one_line [of "mode_id m"] by (simp add: readOneLine_def)
  moreover have "parseInt (Some (valueOf (mode_id m))) = Inr (mode_id m)"
    using entry by (intro parseInt_valueOf) simp_all
  ultimately show ?thesis
    using entry by (simp add: getCurrentMode_def catch_read_mode)
qed

theorem setMode_getCurrentMode_witness:
  "\<lparr>mode_id = 2, mode_name = ''Cinema''\<rparr> \<in> set DISPLAY_MODES \<and>
   setMode (Some \<lparr>mode_id = 2, mode_name = ''Cinema''\<rparr>) True demo_files =
     (True, demo_files\<lparr>attempts := [(MODE_PATH, ''2''), (DEFAULT_PATH, ''2'')],
                       content := [MODE_PATH \<mapsto> ''2'', DEFAULT_PATH \<mapsto> ''2'']\<rparr>) \<and>
   can_read (demo_files\<lparr>attempts := [(MODE_PATH, ''2''), (DEFAULT_PATH, ''2'')],
                        content := [MODE_PATH \<mapsto> ''2'', DEFAULT_PATH \<mapsto> ''2'']\<rparr>) MODE_PATH \<and>
   getCurrentMode (demo_files\<lparr>attempts := [(MODE_PATH, ''2''), (DEFAULT_PATH, ''2'')],
                        content := [MODE_PATH \<mapsto> ''2'', DEFAULT_PATH \<mapsto> ''2'']\<rparr>) =
     Inr (Some \<lparr>mode_id = 2, mode_name = ''Cinema''\<rparr>)"
proof -
  let ?m = "\<lparr>mode_id = 2, mode_name = ''Cinema''\<rparr>"
  let ?fs' = "demo_files\<lparr>attempts := [(MODE_PATH, ''2''), (DEFAULT_PATH, ''2'')],
                        content := [MODE_PATH \<mapsto> ''2'', DEFAULT_PATH \<mapsto> ''2'']\<rparr>"
  have entry: "?m \<in> set DISPLAY_MODES" by (simp add: DISPLAY_MODES_def)
  have set: "setMode (Some ?m) True demo_files = (True, ?fs')"
    by (simp add: setMode_def writeLine_def valueOf_small demo_files_def)
  have rd: "can_read ?fs' MODE_PATH" by (simp add: demo_files_def)
  from setMode_getCurrentMode [OF entry set rd] entry set rd show ?thesis by blast
qed

subsection \<open>Class initialisation\<close>

lemma setMode_attempts:
  "attempts (snd (setMode mode makeDefault fs)) =
     attempts fs @
       (case mode of
          None \<Rightarrow> []
        | Some m \<Rightarrow>
            (MODE_PATH, valueOf (mode_id m)) #
              (if can_write fs MODE_PATH \<and> makeDefault then [(DEFAULT_PATH, valueOf (mode_id m))]
               else []))"
  by (simp add: setMode_def writeLine_def Let_def split: option.splits)

lemma setMode_keeps_default:
  "content (snd (setMode mode False fs)) DEFAULT_PATH = content fs DEFAULT_PATH"
  using paths_differ by (simp add: setMode_def writeLine_def Let_def split: option.splits)

text \<open>
  Claim C10. When the class is loaded: if the default file is readable, the mode read by
  \<^verbatim>\<open>getDefaultMode\<close> is handed to \<^verbatim>\<open>setMode\<close> with \<^verbatim>\<open>makeDefault\<close> false, so that at most the
  mode file is written and the default file is neither written nor changed; otherwise,
  if the mode file is readable, the mode read by \<^verbatim>\<open>getCurrentMode\<close> is handed to
  \<^verbatim>\<open>setMode\<close> with \<^verbatim>\<open>makeDefault\<close> true, which writes it to the mode file and then, that
  write having succeeded, to the default file; and if neither file is readable nothing
  is written.
\<close>

theorem clinit_applies_default:
  "(isFileReadable fs DEFAULT_PATH \<longrightarrow>
      (\<exists>m fs'. getDefaultMode fs = Inr m \<and> clinit fs = Inr fs' \<and>
         fs' = snd (setMode m False fs) \<and>
         content fs' DEFAULT_PATH = content fs DEFAULT_PATH \<and>
         attempts fs' = attempts fs @
           (case m of None \<Rightarrow> [] | Some d \<Rightarrow> [(MODE_PATH, valueOf (mode_id d))]))) \<and>
   (\<not> isFileReadable fs DEFAULT_PATH \<and> isFileReadable fs MODE_PATH \<longrightarrow>
      (\<exists>m fs'. getCurrentMode fs = Inr m \<and> clinit fs = Inr fs' \<and>
         fs' = snd (setMode m True fs) \<and>
         attempts fs' = attempts fs @
           (case m of
              None \<Rightarrow> []
            | Some c \<Rightarrow>
                (MODE_PATH, valueOf (mode_id c)) #
                  (if can_write fs MODE_PATH then [(DEFAULT_PATH, valueOf (mode_id c))] else [])))) \<and>
   (\<not> isFileReadable fs DEFAULT_PATH \<and> \<not> isFileReadable fs MODE_PATH \<longrightarrow> clinit fs = Inr fs)"
proof (intro conjI impI)
  assume r: "isFileReadable fs DEFAULT_PATH"
  obtain m where m: "getDefaultMode fs = Inr m"
    by (simp add: getDefaultMode_def catch_read_mode)
  with r have "clinit fs = Inr (snd (setMode m False fs))" by (simp add: clinit_def)
  with m show "\<exists>m fs'. getDefaultMode fs = Inr m \<and> clinit fs = Inr fs' \<and>
         fs' = snd (setMode m False fs) \<and>
         content fs' DEFAULT_PATH = content fs DEFAULT_PATH \<and>
         attempts fs' = attempts fs @
           (case m of None \<Rightarrow> [] | Some d \<Rightarrow> [(MODE_PATH, valueOf (mode_id d))])"
    by (simp add: setMode_keeps_default setMode_attempts split: option.splits)
next
  assume r: "\<not> isFileReadable fs DEFAULT_PATH \<and> isFileReadable fs MODE_PATH"
  obtain m where m: "getCurrentMode fs = Inr m"
    by (simp add: getCurrentMode_def catch_read_mode)
  with r have "clinit fs = Inr (snd (setMode m True fs))" by (simp add: clinit_def)
  with m show "\<exists>m fs'. getCurrentMode fs = Inr m \<and> clinit fs = Inr fs' \<and>
         fs' = snd (setMode m True fs) \<and>
         attempts fs' = attempts fs @
           (case m of
              None \<Rightarrow> []
            | Some c \<Rightarrow>
                (MODE_PATH, valueOf (mode_id c)) #
                  (if can_write fs MODE_PATH then [(DEFAULT_PATH, valueOf (mode_id c))] else []))"
    by (simp add: setMode_attempts split: option.splits)
next
  assume "\<not> isFileReadable fs DEFAULT_PATH \<and> \<not> isFileReadable fs MODE_PATH"
  then show "clinit fs = Inr fs" by (simp add: clinit_def)
qed

lemma parseInt_small: "parseInt (Some ''0'') = Inr 0" "parseInt (Some ''2'') = Inr 2"
  by (simp_all add: parseInt_def digit_def)

theorem clinit_applies_default_witness:
  "isFileReadable demo_files DEFAULT_PATH \<and>
   clinit demo_files =
     Inr (demo_files\<lparr>attempts := [(MODE_PATH, ''2'')],
                     content := (content demo_files)(MODE_PATH \<mapsto> ''2'')\<rparr>) \<and>
   \<not> isFileReadable (demo_files\<lparr>content := [MODE_PATH \<mapsto> ''0'']\<rparr>) DEFAULT_PATH \<and>
   isFileReadable (demo_files\<lparr>content := [MODE_PATH \<mapsto> ''0'']\<rparr>) MODE_PATH \<and>
   clinit (demo_files\<lparr>content := [MODE_PATH \<mapsto> ''0'']\<rparr>) =
     Inr (demo_files\<lparr>attempts := [(MODE_PATH, ''0''), (DEFAULT_PATH, ''0'')],
                     content := [MODE_PATH \<mapsto> ''0'', DEFAULT_PATH \<mapsto> ''0'']\<rparr>) \<and>
   \<not> isFileReadable (demo_files\<lparr>content := Map.empty\<rparr>) DEFAULT_PATH \<and>
   \<not> isFileReadable (demo_files\<lparr>content := Map.empty\<rparr>) MODE_PATH \<and>
   clinit (demo_files\<lparr>content := Map.empty\<rparr>) = Inr (demo_files\<lparr>content := Map.empty\<rparr>)"
proof -
  let ?a = demo_files
  let ?b = "demo_files\<lparr>content := [MODE_PATH \<mapsto> ''0'']\<rparr>"
  let ?c = "demo_files\<lparr>content := Map.empty\<rparr>"
  have ra: "isFileReadable ?a DEFAULT_PATH"
    by (simp add: isFileReadable_def demo_files_def)
  have rb: "\<not> isFileReadable ?b DEFAULT_PATH \<and> isFileReadable ?b MODE_PATH"
    using paths_differ by (simp add: isFileReadable_def demo_files_def)
  have rc: "\<not> isFileReadable ?c DEFAULT_PATH \<and> \<not> isFileReadable ?c MODE_PATH"
    by (simp add: isFileReadable_def)
  have ma: "getDefaultMode ?a = Inr (Some \<lparr>mode_id = 2, mode_name = ''Cinema''\<rparr>)"
    by (simp add: getDefaultMode_def catch_read_mode readOneLine_def
        demo_files_def parseInt_small DISPLAY_MODES_def)
  have mb: "getCurrentMode ?b = Inr (Some \<lparr>mode_id = 0, mode_name = ''Dynamic''\<rparr>)"
    by (simp add: getCurrentMode_def catch_read_mode readOneLine_def
        demo_files_def parseInt_small DISPLAY_MODES_def)
  have sa: "snd (setMode (Some \<lparr>mode_id = 2, mode_name = ''Cinema''\<rparr>) False ?a) =
      demo_files\<lparr>attempts := [(MODE_PATH, ''2'')],
                 content := (content demo_files)(MODE_PATH \<mapsto> ''2'')\<rparr>"
    by (simp add: setMode_def writeLine_def valueOf_small demo_files_def)
  have sb: "snd (setMode (Some \<lparr>mode_id = 0, mode_name = ''Dynamic''\<rparr>) True ?b) =
      demo_files\<lparr>attempts := [(MODE_PATH, ''0''), (DEFAULT_PATH, ''0'')],
                 content := [MODE_PATH \<mapsto> ''0'', DEFAULT_PATH \<mapsto> ''0'']\<rparr>"
    by (simp add: setMode_def writeLine_def valueOf_small demo_files_def)
  from clinit_applies_default [of ?a, THEN conjunct1, rule_format, OF ra] ma sa
  have ca: "clinit ?a = Inr (demo_files\<lparr>attempts := [(MODE_PATH, ''2'')],
                 content := (content demo_files)(MODE_PATH \<mapsto> ''2'')\<rparr>)"
    by auto
  from clinit_applies_default [of ?b, THEN conjunct2, THEN conjunct1, rule_format, OF rb] mb sb
  have cb: "clinit ?b = Inr (demo_files\<lparr>attempts := [(MODE_PATH, ''0''), (DEFAULT_PATH, ''0'')],
                 content := [MODE_PATH \<mapsto> ''0'', DEFAULT_PATH \<mapsto> ''0'']\<rparr>)"
    by auto
  from clinit_applies_default [of ?c, THEN conjunct2, THEN conjunct2, rule_format, OF rc]
  have cc: "clinit ?c = Inr ?c" .
  from ra rb rc ca cb cc show ?thesis by blast
qed


end
